theory Spec2Isabelle
  imports Complex_Main
begin

section \<open>Strings and numbers of the host language\<close>

text \<open>
  Text is a list of characters standing for the code units of a JavaScript string; the
  8-bit characters used here cover Latin-1 text. \<open>trim\<close> strips the white space of that
  range from both ends, \<open>toLowerCase\<close> and \<open>toUpperCase\<close> fold the letters of that
  range, and \<open>split_ws\<close> is \<open>split(/\s+/)\<close>.
\<close>

definition is_ws :: "char \<Rightarrow> bool" where
  "is_ws c = (c \<in> set [CHR 0x09, CHR 0x0A, CHR 0x0B, CHR 0x0C, CHR 0x0D, CHR '' '', CHR 0xA0])"

definition trim :: "string \<Rightarrow> string" where
  "trim s = rev (dropWhile is_ws (rev (dropWhile is_ws s)))"

definition lower_char :: "char \<Rightarrow> char" where
  "lower_char c =
     (case c of Char b0 b1 b2 b3 b4 b5 b6 b7 \<Rightarrow>
        (let n = (of_char c :: nat) in
         if (65 \<le> n \<and> n \<le> 90) \<or> (192 \<le> n \<and> n \<le> 222 \<and> n \<noteq> 215)
         then Char b0 b1 b2 b3 b4 True b6 b7 else c))"

definition upper_char :: "char \<Rightarrow> char" where
  "upper_char c =
     (case c of Char b0 b1 b2 b3 b4 b5 b6 b7 \<Rightarrow>
        (let n = (of_char c :: nat) in
         if (97 \<le> n \<and> n \<le> 122) \<or> (224 \<le> n \<and> n \<le> 254 \<and> n \<noteq> 247)
         then Char b0 b1 b2 b3 b4 False b6 b7 else c))"

definition toLowerCase :: "string \<Rightarrow> string" where
  "toLowerCase s = map lower_char s"

definition toUpperCase :: "string \<Rightarrow> string" where
  "toUpperCase s = map upper_char s"

definition startsWith :: "string \<Rightarrow> string \<Rightarrow> bool" where
  "startsWith s p = (take (length p) s = p)"

fun split_ws_from :: "bool \<Rightarrow> string \<Rightarrow> string \<Rightarrow> string list" where
  "split_ws_from in_gap cur [] = [rev cur]"
| "split_ws_from in_gap cur (c # cs) =
     (if is_ws c
      then (if in_gap then split_ws_from True cur cs else rev cur # split_ws_from True [] cs)
      else split_ws_from False (c # cur) cs)"

definition split_ws :: "string \<Rightarrow> string list" where
  "split_ws s = split_ws_from False [] s"

text \<open>Digits of a number in a radix, most significant first, as \<open>toString(radix)\<close> lists them.\<close>

function digits_of :: "nat \<Rightarrow> nat \<Rightarrow> nat list" where
  "digits_of b n = (if b < 2 \<or> n < b then [n] else digits_of b (n div b) @ [n mod b])"
  by pat_completeness auto
termination
proof (relation "measure snd")
  show "wf (measure snd)" by simp
next
  fix b n :: nat
  assume "\<not> (b < 2 \<or> n < b)"
  then have "n div b < n" by simp
  then show "((b, n div b), (b, n)) \<in> measure snd" by simp
qed

declare digits_of.simps [simp del]

definition digit_char :: "nat \<Rightarrow> char" where
  "digit_char d = (''0123456789abcdefghijklmnopqrstuvwxyz'' ! d)"

definition toString_radix :: "nat \<Rightarrow> nat \<Rightarrow> string" where
  "toString_radix b n = map digit_char (digits_of b n)"

text \<open>\<open>String(n)\<close> of an integer.\<close>

definition String_of_int :: "int \<Rightarrow> string" where
  "String_of_int i = (if i < 0 then ''-'' else []) @ toString_radix 10 (nat \<bar>i\<bar>)"

text \<open>
  \<open>x.toFixed(6)\<close> of a finite number, taken as the rational it denotes: the sign, then the
  nearest multiple of one millionth (the larger on a tie), with six decimals.
\<close>

definition toFixed6 :: "rat \<Rightarrow> string" where
  "toFixed6 x =
     (let n = nat \<lfloor>\<bar>x\<bar> * 1000000 + 1 / 2\<rfloor>;
          frac = toString_radix 10 (n mod 1000000)
      in (if x < 0 then ''-'' else []) @ toString_radix 10 (n div 1000000) @ ''.''
         @ replicate (6 - length frac) (CHR ''0'') @ frac)"

text \<open>
  \<open>Number(s)\<close> on the text of a callback: white space is trimmed, the empty text is 0, and
  an optionally signed run of decimal digits is its value. Every other text (among them
  fractions, exponents and radix prefixes, which this embedding does not read) is \<open>None\<close>:
  a value that equals no row id.
\<close>

fun decimal_value :: "nat \<Rightarrow> string \<Rightarrow> nat option" where
  "decimal_value acc [] = Some acc"
| "decimal_value acc (c # cs) =
     (let n = (of_char c :: nat) in
      if 48 \<le> n \<and> n \<le> 57 then decimal_value (acc * 10 + (n - 48)) cs else None)"

definition Number_of_string :: "string \<Rightarrow> int option" where
  "Number_of_string s =
     (case trim s of
        [] \<Rightarrow> Some 0
      | c # cs \<Rightarrow>
          if c = CHR ''-'' \<and> cs \<noteq> [] then map_option (\<lambda>n. - int n) (decimal_value 0 cs)
          else if c = CHR ''+'' \<and> cs \<noteq> [] then map_option int (decimal_value 0 cs)
          else if c = CHR ''-'' \<or> c = CHR ''+'' then None
          else map_option int (decimal_value 0 (c # cs)))"

section \<open>Data model of the Telegram intake\<close>

datatype TelegramLanguage = En | Hi | Mr

datatype TelegramState =
  Idle | Awaiting_language | Awaiting_category | Awaiting_description | Awaiting_location
  | Awaiting_confirmation

datatype TranslationKey =
  Welcome | ChooseLanguage | LanguageSet | ChooseCategory | EnterDescription | EnterLocation
  | ConfirmPrompt | Submitted | Cancelled | Help | InvalidDescription | InvalidLocation | Unknown
  | StatusMissing | StatusNotFound | StatusResult

record TelegramDraft =
  categoryId :: "int option"
  categoryName :: "string option"
  description :: "string option"
  location :: "string option"
  latitude :: "rat option"
  longitude :: "rat option"

definition empty_draft :: TelegramDraft where
  "empty_draft = \<lparr>categoryId = None, categoryName = None, description = None, location = None,
                   latitude = None, longitude = None\<rparr>"

record TelegramSession =
  chatId :: string
  userId :: "int option"
  state :: TelegramState
  language :: TelegramLanguage
  draft :: TelegramDraft

text \<open>
  A row of \<open>telegram_sessions\<close>, without its key \<open>chat_id\<close> (the table is a map from it).
  The \<open>draft_json\<close> column is null, the JSON text of a draft, or text that does not parse to
  an object.
\<close>

datatype draft_json = Draft_json TelegramDraft | Malformed_json string

record TelegramSessionRow =
  user_id :: "int option"
  row_state :: TelegramState
  row_language :: TelegramLanguage
  draft_json :: "draft_json option"

record TelegramUser =
  tg_user_id :: int
  first_name :: "string option"
  last_name :: "string option"

record TelegramMessage =
  message_id :: int
  msg_chat_id :: int
  msg_text :: "string option"
  msg_location :: "(rat \<times> rat) option"
  msg_from :: "TelegramUser option"

record TelegramCallbackQuery =
  cb_id :: string
  cb_from :: TelegramUser
  cb_data :: "string option"
  cb_message :: "TelegramMessage option"

text \<open>
  The request body is cast to \<open>TelegramUpdate\<close> unchecked, so \<open>update_id\<close> is whatever
  value the JSON held. Numbers are taken to be integers, as the platform's identifiers are.
\<close>

datatype js_value = JS_undefined | JS_null | JS_bool bool | JS_number int | JS_string string

record TelegramUpdate =
  update_id :: js_value
  message :: "TelegramMessage option"
  callback_query :: "TelegramCallbackQuery option"

text \<open>
  Rows of \<open>users\<close> and \<open>grievances\<close>, with the columns the intake reads or writes. The
  password column (a hash of a fresh random value for an account created here) and the
  timestamp columns are left out.
\<close>

record user_row =
  u_id :: int
  u_email :: string
  u_name :: string
  u_role :: string
  u_telegram_chat_id :: "string option"

record grievance_row =
  ticket_number :: string
  citizen_id :: int
  category_id :: int
  title :: string
  g_description :: string
  g_location :: string
  g_latitude :: "rat option"
  g_longitude :: "rat option"
  g_priority :: string
  g_status :: string
  g_complaint_status :: "string option"
  source_channel :: "string option"
  source_user_id :: "string option"

text \<open>
  Replies are kept by the template they are built from (the tables of \<open>tgText\<close> hold text
  in three scripts), keyboards by their kind.
\<close>

datatype reply_text =
  TgT TelegramLanguage TranslationKey "(string \<times> string) list"
  | Lines reply_text reply_text
  | ComplaintSummary TelegramLanguage TelegramDraft

datatype keyboard =
  LanguageKeyboard | CategoryKeyboard "(int \<times> string) list" | ConfirmationKeyboard TelegramLanguage

datatype api_call =
  SendMessage string reply_text "keyboard option"
  | AnswerCallbackQuery string

text \<open>
  The state the handlers act on: the five tables and the calls made to the platform, in
  order. \<open>telegram_updates\<close> lists the recorded update ids, oldest first.
\<close>

record world =
  users :: "user_row list"
  grievance_categories :: "(int \<times> string) list"
  grievances :: "grievance_row list"
  telegram_sessions :: "string \<rightharpoonup> TelegramSessionRow"
  telegram_updates :: "int list"
  outbox :: "api_call list"

datatype error = Sqlite_error string

record config =
  env_TELEGRAM_BOT_TOKEN :: "string option"
  env_TELEGRAM_WEBHOOK_SECRET :: "string option"

definition TELEGRAM_BOT_TOKEN :: "config \<Rightarrow> string" where
  "TELEGRAM_BOT_TOKEN cfg = trim (case env_TELEGRAM_BOT_TOKEN cfg of None \<Rightarrow> [] | Some s \<Rightarrow> s)"

definition TELEGRAM_WEBHOOK_SECRET :: "config \<Rightarrow> string" where
  "TELEGRAM_WEBHOOK_SECRET cfg =
     trim (case env_TELEGRAM_WEBHOOK_SECRET cfg of None \<Rightarrow> [] | Some s \<Rightarrow> s)"

definition isTelegramEnabled :: "config \<Rightarrow> bool" where
  "isTelegramEnabled cfg = (length (TELEGRAM_BOT_TOKEN cfg) > 0)"

section \<open>Session store, identity resolver, replies\<close>

definition parseTelegramLanguage :: "string option \<Rightarrow> TelegramLanguage option" where
  "parseTelegramLanguage input =
     (let v = toLowerCase (trim (case input of None \<Rightarrow> [] | Some s \<Rightarrow> s)) in
      if v = ''en'' then Some En
      else if v = ''hi'' then Some Hi
      else if v = ''mr'' then Some Mr
      else if v \<in> set [''english'', ''eng''] then Some En
      else if v \<in> set [''hindi'', ''hin''] then Some Hi
      else if v \<in> set [''marathi'', ''mar''] then Some Mr
      else None)"

fun parseDraft :: "draft_json option \<Rightarrow> TelegramDraft" where
  "parseDraft None = empty_draft"
| "parseDraft (Some (Draft_json d)) = d"
| "parseDraft (Some (Malformed_json s)) = empty_draft"

definition session_row :: "TelegramSession \<Rightarrow> TelegramSessionRow" where
  "session_row session =
     \<lparr>user_id = userId session, row_state = state session, row_language = language session,
      draft_json = Some (Draft_json (draft session))\<rparr>"

definition getTelegramSession :: "string \<Rightarrow> world \<Rightarrow> TelegramSession \<times> world" where
  "getTelegramSession chat w =
     (case telegram_sessions w chat of
        None \<Rightarrow>
          (let session = \<lparr>chatId = chat, userId = None, state = Awaiting_language,
                          language = En, draft = empty_draft\<rparr>
           in (session, w\<lparr>telegram_sessions := (telegram_sessions w)(chat \<mapsto> session_row session)\<rparr>))
      | Some row \<Rightarrow>
          (\<lparr>chatId = chat, userId = user_id row, state = row_state row,
            language = row_language row, draft = parseDraft (draft_json row)\<rparr>, w))"

definition saveTelegramSession :: "TelegramSession \<Rightarrow> world \<Rightarrow> world" where
  "saveTelegramSession session w =
     w\<lparr>telegram_sessions := (telegram_sessions w)(chatId session \<mapsto> session_row session)\<rparr>"

definition getTelegramCategories :: "world \<Rightarrow> (int \<times> string) list" where
  "getTelegramCategories w = grievance_categories w"

text \<open>
  \<open>ensureTelegramCitizen\<close>: the row bound to the chat id; else the row with the
  placeholder e-mail, which is then bound; else a new row. The new row's id is one more
  than the largest id (the table is \<open>AUTOINCREMENT\<close> and no row of it is ever deleted).
\<close>

definition fallbackEmail :: "string \<Rightarrow> string" where
  "fallbackEmail chat =
     ''tg_'' @ map (\<lambda>c. if c \<in> set ''abcdefghijklmnopqrstuvwxyzABCDEFGHIJKLMNOPQRSTUVWXYZ0123456789_-''
                         then c else CHR ''_'') chat
     @ ''@telegram.local''"

definition next_user_id :: "user_row list \<Rightarrow> int" where
  "next_user_id us = fold max (map u_id us) 0 + 1"

definition fullName :: "string \<Rightarrow> TelegramUser option \<Rightarrow> string" where
  "fullName chat user =
     (let first = (case user of None \<Rightarrow> [] | Some u \<Rightarrow> (case first_name u of None \<Rightarrow> [] | Some s \<Rightarrow> s));
          last = (case user of None \<Rightarrow> [] | Some u \<Rightarrow> (case last_name u of None \<Rightarrow> [] | Some s \<Rightarrow> s));
          joined = trim (first @ '' '' @ last)
      in if joined = [] then ''Telegram User '' @ chat else joined)"

definition ensureTelegramCitizen :: "string \<Rightarrow> TelegramUser option \<Rightarrow> world \<Rightarrow> int \<times> world" where
  "ensureTelegramCitizen chat user w =
     (case find (\<lambda>u. u_telegram_chat_id u = Some chat) (users w) of
        Some existing \<Rightarrow> (u_id existing, w)
      | None \<Rightarrow>
          (case find (\<lambda>u. u_email u = fallbackEmail chat) (users w) of
             Some byEmail \<Rightarrow>
               (u_id byEmail,
                w\<lparr>users := map (\<lambda>u. if u_id u = u_id byEmail
                                      then u\<lparr>u_telegram_chat_id := Some chat\<rparr> else u) (users w)\<rparr>)
           | None \<Rightarrow>
               (let inserted = \<lparr>u_id = next_user_id (users w), u_email = fallbackEmail chat,
                                u_name = fullName chat user, u_role = ''citizen'',
                                u_telegram_chat_id = Some chat\<rparr>
                in (u_id inserted, w\<lparr>users := users w @ [inserted]\<rparr>))))"

text \<open>
  Calls to the platform are made only while the bot credential is set; a call made is
  appended to \<open>outbox\<close>. Delivery itself (the HTTP exchange) is outside the embedding.
\<close>

definition callTelegramApi :: "config \<Rightarrow> api_call \<Rightarrow> world \<Rightarrow> world" where
  "callTelegramApi cfg call w = (if isTelegramEnabled cfg then w\<lparr>outbox := outbox w @ [call]\<rparr> else w)"

definition sendTelegramMessage :: "config \<Rightarrow> string \<Rightarrow> reply_text \<Rightarrow> keyboard option \<Rightarrow> world \<Rightarrow> world" where
  "sendTelegramMessage cfg chat txt replyMarkup w = callTelegramApi cfg (SendMessage chat txt replyMarkup) w"

definition answerTelegramCallback :: "config \<Rightarrow> string \<Rightarrow> world \<Rightarrow> world" where
  "answerTelegramCallback cfg callbackQueryId w = callTelegramApi cfg (AnswerCallbackQuery callbackQueryId) w"

text \<open>
  \<open>SELECT id, name FROM grievance_categories WHERE id = ?\<close>, on the number read from
  the callback data (\<open>None\<close>: a value that is no row id).
\<close>

definition category_by_id :: "world \<Rightarrow> int option \<Rightarrow> (int \<times> string) option" where
  "category_by_id w n =
     (case n of None \<Rightarrow> None | Some i \<Rightarrow> find (\<lambda>c. fst c = i) (grievance_categories w))"

definition categoryKeyboard :: "world \<Rightarrow> keyboard" where
  "categoryKeyboard w = CategoryKeyboard (getTelegramCategories w)"

section \<open>Ticket writer\<close>

text \<open>
  \<open>ticket_number\<close> is \<open>UNIQUE\<close>: an insert of a number already in the table raises. The
  foreign keys of the row hold for every session the handlers stored (user and category
  rows are never deleted), so they are not checked here.
\<close>

definition insert_grievance :: "grievance_row \<Rightarrow> world \<Rightarrow> error + world" where
  "insert_grievance g w =
     (if ticket_number g \<in> set (map ticket_number (grievances w))
      then Inl (Sqlite_error ''UNIQUE constraint failed: grievances.ticket_number'')
      else Inr (w\<lparr>grievances := grievances w @ [g]\<rparr>))"

definition telegram_ticket :: "nat \<Rightarrow> string" where
  "telegram_ticket now = ''TGM-'' @ toUpperCase (toString_radix 36 now)"

text \<open>
  \<open>submitTelegramComplaint\<close>, with \<open>now\<close> the value of \<open>Date.now()\<close>. The first line of
  the source tests the four values for falsiness: null or 0 for the ids, absent or empty
  for the texts. The result is the ticket (or null) and the session object as the call
  leaves it.
\<close>

definition submitTelegramComplaint ::
  "TelegramSession \<Rightarrow> string \<Rightarrow> nat \<Rightarrow> world \<Rightarrow> (error + string option \<times> TelegramSession) \<times> world" where
  "submitTelegramComplaint session chat now w =
     (case (userId session, categoryId (draft session), description (draft session),
            location (draft session)) of
        (Some uid, Some cid, Some descr, Some loc) \<Rightarrow>
          if uid = 0 \<or> cid = 0 \<or> descr = [] \<or> loc = [] then (Inr (None, session), w)
          else
            (let ticket = telegram_ticket now;
                 row = \<lparr>ticket_number = ticket, citizen_id = uid, category_id = cid,
                        title = take 100 descr, g_description = descr, g_location = loc,
                        g_latitude = latitude (draft session), g_longitude = longitude (draft session),
                        g_priority = ''medium'', g_status = ''submitted'',
                        g_complaint_status = Some ''pending'', source_channel = Some ''telegram'',
                        source_user_id = Some chat\<rparr>
             in case insert_grievance row w of
                  Inl e \<Rightarrow> (Inl e, w)
                | Inr w1 \<Rightarrow>
                    (let session1 = session\<lparr>state := Idle, draft := empty_draft\<rparr>
                     in (Inr (Some ticket, session1), saveTelegramSession session1 w1)))
      | _ \<Rightarrow> (Inr (None, session), w))"

section \<open>Conversation handlers\<close>

text \<open>
  \<open>handleTelegramMessage\<close>. The commands are tested first, on the trimmed text in lower
  case, in the order of the source; then the branch of the stored state.
\<close>

definition handleTelegramMessage :: "config \<Rightarrow> TelegramUpdate \<Rightarrow> world \<Rightarrow> world" where
  "handleTelegramMessage cfg update w =
     (case message update of
        None \<Rightarrow> w
      | Some msg \<Rightarrow>
          (let chat = String_of_int (msg_chat_id msg);
               (session, w1) = getTelegramSession chat w;
               txt = trim (case msg_text msg of None \<Rightarrow> [] | Some t \<Rightarrow> t);
               lower = toLowerCase txt
           in
           if startsWith lower ''/start'' \<or> startsWith lower ''/new'' then
             (let session1 = session\<lparr>state := Awaiting_language, draft := empty_draft\<rparr>
              in sendTelegramMessage cfg chat
                   (Lines (TgT (language session1) Welcome []) (TgT (language session1) ChooseLanguage []))
                   (Some LanguageKeyboard) (saveTelegramSession session1 w1))
           else if startsWith lower ''/help'' then
             sendTelegramMessage cfg chat (TgT (language session) Help []) None w1
           else if startsWith lower ''/cancel'' then
             (let session1 = session\<lparr>state := Idle, draft := empty_draft\<rparr>
              in sendTelegramMessage cfg chat (TgT (language session1) Cancelled []) None
                   (saveTelegramSession session1 w1))
           else if startsWith lower ''/status'' then
             (case (case split_ws txt of a # b # rest \<Rightarrow> Some (trim b) | _ \<Rightarrow> None) of
                None \<Rightarrow> sendTelegramMessage cfg chat (TgT (language session) StatusMissing []) None w1
              | Some ticket \<Rightarrow>
                  if ticket = [] then
                    sendTelegramMessage cfg chat (TgT (language session) StatusMissing []) None w1
                  else
                    (case find (\<lambda>g. ticket_number g = ticket \<and> source_channel g = Some ''telegram''
                                      \<and> source_user_id g = Some chat) (grievances w1) of
                       None \<Rightarrow>
                         sendTelegramMessage cfg chat (TgT (language session) StatusNotFound []) None w1
                     | Some grievance \<Rightarrow>
                         sendTelegramMessage cfg chat
                           (TgT (language session) StatusResult
                              [(''ticket'', ticket_number grievance), (''status'', g_status grievance)])
                           None w1))
           else if state session = Awaiting_language then
             (case parseTelegramLanguage (Some txt) of
                None \<Rightarrow>
                  sendTelegramMessage cfg chat (TgT (language session) ChooseLanguage [])
                    (Some LanguageKeyboard) w1
              | Some selected \<Rightarrow>
                  (let (uid, w2) = ensureTelegramCitizen chat (msg_from msg) w1;
                       session1 = session\<lparr>language := selected, state := Awaiting_category,
                                          userId := Some uid\<rparr>;
                       w3 = saveTelegramSession session1 w2
                   in sendTelegramMessage cfg chat
                        (Lines (TgT (language session1) LanguageSet []) (TgT (language session1) ChooseCategory []))
                        (Some (categoryKeyboard w3)) w3))
           else if state session = Awaiting_description then
             (if length txt < 10 then
                sendTelegramMessage cfg chat (TgT (language session) InvalidDescription []) None w1
              else
                (let session1 = session\<lparr>draft := (draft session)\<lparr>description := Some txt\<rparr>,
                                          state := Awaiting_location\<rparr>
                 in sendTelegramMessage cfg chat (TgT (language session1) EnterLocation []) None
                      (saveTelegramSession session1 w1)))
           else if state session = Awaiting_location then
             (case msg_location msg of
                Some (lat, lng) \<Rightarrow>
                  (let session1 = session\<lparr>draft := (draft session)\<lparr>latitude := Some lat, longitude := Some lng,
                                               location := Some (toFixed6 lat @ '', '' @ toFixed6 lng)\<rparr>,
                                            state := Awaiting_confirmation\<rparr>
                   in sendTelegramMessage cfg chat (ComplaintSummary (language session1) (draft session1))
                        (Some (ConfirmationKeyboard (language session1))) (saveTelegramSession session1 w1))
              | None \<Rightarrow>
                  if length txt \<ge> 3 then
                    (let session1 = session\<lparr>draft := (draft session)\<lparr>location := Some txt, latitude := None,
                                                 longitude := None\<rparr>,
                                              state := Awaiting_confirmation\<rparr>
                     in sendTelegramMessage cfg chat (ComplaintSummary (language session1) (draft session1))
                          (Some (ConfirmationKeyboard (language session1))) (saveTelegramSession session1 w1))
                  else
                    sendTelegramMessage cfg chat (TgT (language session) InvalidLocation []) None w1)
           else
             sendTelegramMessage cfg chat (TgT (language session) Unknown []) None w1))"

text \<open>
  \<open>handleTelegramCallback\<close>. The callback is acknowledged to the platform before its data
  is looked at. Where the data starts with the prefix, \<open>data.replace(prefix, "")\<close> is the
  data without its first characters. An error raised by the ticket insert leaves the
  handler; it is the first component of the result.
\<close>

definition handleTelegramCallback ::
  "config \<Rightarrow> nat \<Rightarrow> TelegramUpdate \<Rightarrow> world \<Rightarrow> error option \<times> world" where
  "handleTelegramCallback cfg now update w =
     (case callback_query update of
        None \<Rightarrow> (None, w)
      | Some callback \<Rightarrow>
          (case cb_message callback of
             None \<Rightarrow> (None, w)
           | Some msg \<Rightarrow>
               (let chat = String_of_int (msg_chat_id msg);
                    data = (case cb_data callback of None \<Rightarrow> [] | Some d \<Rightarrow> d);
                    (session, w1) = getTelegramSession chat w;
                    w2 = answerTelegramCallback cfg (cb_id callback) w1
                in
                if startsWith data ''lang:'' then
                  (case parseTelegramLanguage (Some (drop (length ''lang:'') data)) of
                     None \<Rightarrow> (None, w2)
                   | Some selected \<Rightarrow>
                       (let (uid, w3) = ensureTelegramCitizen chat (Some (cb_from callback)) w2;
                            session1 = session\<lparr>language := selected, state := Awaiting_category,
                                               userId := Some uid\<rparr>;
                            w4 = saveTelegramSession session1 w3
                        in (None, sendTelegramMessage cfg chat
                              (Lines (TgT (language session1) LanguageSet [])
                                     (TgT (language session1) ChooseCategory []))
                              (Some (categoryKeyboard w4)) w4)))
                else if startsWith data ''cat:'' then
                  (case category_by_id w2 (Number_of_string (drop (length ''cat:'') data)) of
                     None \<Rightarrow> (None, w2)
                   | Some category \<Rightarrow>
                       (let session1 = session\<lparr>draft := (draft session)\<lparr>categoryId := Some (fst category),
                                                    categoryName := Some (snd category)\<rparr>,
                                                 state := Awaiting_description\<rparr>
                        in (None, sendTelegramMessage cfg chat (TgT (language session1) EnterDescription [])
                              None (saveTelegramSession session1 w2))))
                else if data = ''confirm:cancel'' then
                  (let session1 = session\<lparr>state := Idle, draft := empty_draft\<rparr>
                   in (None, sendTelegramMessage cfg chat (TgT (language session1) Cancelled []) None
                         (saveTelegramSession session1 w2)))
                else if data = ''confirm:submit'' then
                  (case submitTelegramComplaint session chat now w2 of
                     (Inl e, w3) \<Rightarrow> (Some e, w3)
                   | (Inr (None, session1), w3) \<Rightarrow>
                       (None, sendTelegramMessage cfg chat (TgT (language session1) Unknown []) None w3)
                   | (Inr (Some ticket, session1), w3) \<Rightarrow>
                       (None, sendTelegramMessage cfg chat
                          (TgT (language session1) Submitted [(''ticket'', ticket)]) None w3))
                else (None, w2))))"

section \<open>Webhook\<close>

record request =
  secret_token_header :: "string option"
  body :: "TelegramUpdate option"

datatype response_body = Error_body string | Ok_body | Ok_duplicate_body

text \<open>
  What the route handler does with a request: it sends a JSON response with a status, or
  (an \<open>async\<close> handler whose promise is rejected) it sends nothing.
\<close>

datatype response = Json_response nat response_body | Unhandled_rejection error

text \<open>
  The duplicate check prepares the statement
  \<open>SELECT 1 as exists FROM telegram_updates WHERE update_id = ?\<close>. Its column alias is
  the bare word \<open>exists\<close>, a keyword that SQLite's grammar does not let stand as a name:
  preparing the statement raises \<open>near "exists": syntax error\<close>, before any row is read.
  \<open>prepare_with_alias\<close> is that rule of the engine for the aliases met here, and
  \<open>ledger_lookup\<close> what the statement selects once prepared.
\<close>

definition sqlite_reserved :: "string list" where
  "sqlite_reserved = [''exists'', ''select'', ''from'', ''where'', ''table'', ''index'', ''order'',
                      ''group'', ''values'', ''not'', ''null'', ''and'', ''or'', ''as'']"

definition prepare_with_alias :: "string \<Rightarrow> error option" where
  "prepare_with_alias alias =
     (if toLowerCase alias \<in> set sqlite_reserved
      then Some (Sqlite_error (''near '' @ [CHR 0x22] @ alias @ [CHR 0x22] @ '': syntax error''))
      else None)"

definition ledger_lookup :: "world \<Rightarrow> int \<Rightarrow> error + bool" where
  "ledger_lookup w uid = Inr (uid \<in> set (telegram_updates w))"

definition seen_update :: "world \<Rightarrow> int \<Rightarrow> error + bool" where
  "seen_update w uid =
     (case prepare_with_alias ''exists'' of Some e \<Rightarrow> Inl e | None \<Rightarrow> ledger_lookup w uid)"

text \<open>
  The route \<open>POST /webhooks/telegram\<close>, over the duplicate check it is given:
  \<open>telegram_webhook\<close> is the route as written, with \<open>seen_update\<close>. An error raised by a
  handler is caught and logged, and the request is acknowledged all the same.
\<close>

definition dispatch_update :: "config \<Rightarrow> nat \<Rightarrow> TelegramUpdate \<Rightarrow> world \<Rightarrow> world" where
  "dispatch_update cfg now update w =
     (if callback_query update \<noteq> None then snd (handleTelegramCallback cfg now update w)
      else if message update \<noteq> None then handleTelegramMessage cfg update w
      else w)"

definition webhook_route ::
  "(world \<Rightarrow> int \<Rightarrow> error + bool) \<Rightarrow> config \<Rightarrow> nat \<Rightarrow> request \<Rightarrow> world \<Rightarrow> response \<times> world" where
  "webhook_route seen cfg now req w =
     (if \<not> isTelegramEnabled cfg then
        (Json_response 503 (Error_body ''Telegram integration is disabled''), w)
      else if TELEGRAM_WEBHOOK_SECRET cfg \<noteq> []
              \<and> (case secret_token_header req of None \<Rightarrow> [] | Some s \<Rightarrow> s) \<noteq> TELEGRAM_WEBHOOK_SECRET cfg then
        (Json_response 401 (Error_body ''Invalid webhook secret''), w)
      else
        (case body req of
           None \<Rightarrow> (Json_response 400 (Error_body ''Invalid update payload''), w)
         | Some update \<Rightarrow>
             (case update_id update of
                JS_number uid \<Rightarrow>
                  (case seen w uid of
                     Inl e \<Rightarrow> (Unhandled_rejection e, w)
                   | Inr True \<Rightarrow> (Json_response 200 Ok_duplicate_body, w)
                   | Inr False \<Rightarrow>
                       (Json_response 200 Ok_body,
                        dispatch_update cfg now update (w\<lparr>telegram_updates := telegram_updates w @ [uid]\<rparr>)))
              | _ \<Rightarrow> (Json_response 400 (Error_body ''Invalid update payload''), w))))"

definition telegram_webhook :: "config \<Rightarrow> nat \<Rightarrow> request \<Rightarrow> world \<Rightarrow> response \<times> world" where
  "telegram_webhook cfg now req w = webhook_route seen_update cfg now req w"

section \<open>Invariants of the stored state and sample data\<close>

text \<open>
  What the schema enforces on \<open>users\<close>: the primary key, and the unique index on
  \<open>telegram_chat_id\<close> (null bindings apart).
\<close>

definition users_ok :: "world \<Rightarrow> bool" where
  "users_ok w =
     (distinct (map u_id (users w)) \<and> distinct (List.map_filter u_telegram_chat_id (users w)))"

text \<open>
  A database as \<open>initDb\<close> seeds it (two accounts, six categories), without tickets, and a
  configuration with both settings present.
\<close>

definition seeded_world :: world where
  "seeded_world =
     \<lparr>users = [\<lparr>u_id = 1, u_email = ''admin@nagarseva.gov'', u_name = ''Municipal Officer'',
                 u_role = ''authority'', u_telegram_chat_id = None\<rparr>,
                \<lparr>u_id = 2, u_email = ''citizen@nagarseva.com'', u_name = ''Harsh'',
                 u_role = ''citizen'', u_telegram_chat_id = None\<rparr>],
      grievance_categories = [(1, ''Roads & Potholes''), (2, ''Waste Management''), (3, ''Street Lights''),
                              (4, ''Water Supply''), (5, ''Drainage''), (6, ''Public Safety'')],
      grievances = [],
      telegram_sessions = Map.empty,
      telegram_updates = [],
      outbox = []\<rparr>"

definition sample_config :: config where
  "sample_config = \<lparr>env_TELEGRAM_BOT_TOKEN = Some ''12345:token'',
                     env_TELEGRAM_WEBHOOK_SECRET = Some ''s3cret''\<rparr>"

definition text_message :: "int \<Rightarrow> string \<Rightarrow> TelegramMessage" where
  "text_message chat txt =
     \<lparr>message_id = 1, msg_chat_id = chat, msg_text = Some txt, msg_location = None, msg_from = None\<rparr>"

definition text_update :: "int \<Rightarrow> int \<Rightarrow> string \<Rightarrow> TelegramUpdate" where
  "text_update uid chat txt =
     \<lparr>update_id = JS_number uid, message = Some (text_message chat txt), callback_query = None\<rparr>"

definition button_update :: "int \<Rightarrow> int \<Rightarrow> string \<Rightarrow> TelegramUpdate" where
  "button_update uid chat data =
     \<lparr>update_id = JS_number uid, message = None,
      callback_query = Some \<lparr>cb_id = ''cb'', cb_from = \<lparr>tg_user_id = chat, first_name = None, last_name = None\<rparr>,
                              cb_data = Some data,
                              cb_message = Some \<lparr>message_id = 1, msg_chat_id = chat, msg_text = None,
                                                  msg_location = None, msg_from = None\<rparr>\<rparr>\<rparr>"

text \<open>
  A state in the middle of two conversations: chats 555 and 556 are bound to accounts 3 and
  4 and both wait for the confirmation of the same complete draft.
\<close>

definition sample_draft :: TelegramDraft where
  "sample_draft =
     \<lparr>categoryId = Some 2, categoryName = Some ''Waste Management'',
      description = Some ''Garbage overflowing near the market for five days'',
      location = Some ''Market Road'', latitude = None, longitude = None\<rparr>"

definition confirming_world :: world where
  "confirming_world =
     seeded_world
       \<lparr>users := users seeded_world @
          [\<lparr>u_id = 3, u_email = ''tg_555@telegram.local'', u_name = ''Telegram User 555'',
            u_role = ''citizen'', u_telegram_chat_id = Some ''555''\<rparr>,
           \<lparr>u_id = 4, u_email = ''tg_556@telegram.local'', u_name = ''Telegram User 556'',
            u_role = ''citizen'', u_telegram_chat_id = Some ''556''\<rparr>],
        telegram_sessions :=
          [''555'' \<mapsto> \<lparr>user_id = Some 3, row_state = Awaiting_confirmation, row_language = Hi,
                         draft_json = Some (Draft_json sample_draft)\<rparr>,
           ''556'' \<mapsto> \<lparr>user_id = Some 4, row_state = Awaiting_confirmation, row_language = En,
                         draft_json = Some (Draft_json sample_draft)\<rparr>]\<rparr>"

text \<open>
  The session a chat id without a stored row gets, and what the table holds for a chat:
  the state and the draft read back from its row.
\<close>

definition new_session :: "string \<Rightarrow> TelegramSession" where
  "new_session chat = \<lparr>chatId = chat, userId = None, state = Awaiting_language, language = En, draft = empty_draft\<rparr>"

definition stored :: "world \<Rightarrow> string \<Rightarrow> (TelegramState \<times> TelegramDraft) option" where
  "stored w chat = map_option (\<lambda>r. (row_state r, parseDraft (draft_json r))) (telegram_sessions w chat)"

text \<open>
  What the conversation guarantees of a stored draft: a description, where present, has at
  least 10 characters, and a location, where present, has at least 3 characters or comes
  with coordinates. \<open>reachable\<close> are the states the server can be in: it starts with an
  empty session table, handles updates, and its other routes leave the table alone.
\<close>

definition draft_ok :: "TelegramDraft \<Rightarrow> bool" where
  "draft_ok d =
     ((case description d of None \<Rightarrow> True | Some s \<Rightarrow> 10 \<le> length s)
      \<and> (case location d of
            None \<Rightarrow> True
          | Some l \<Rightarrow> 3 \<le> length l \<or> (latitude d \<noteq> None \<and> longitude d \<noteq> None)))"

definition sessions_ok :: "world \<Rightarrow> bool" where
  "sessions_ok w =
     (\<forall>chat row. telegram_sessions w chat = Some row \<longrightarrow> draft_ok (parseDraft (draft_json row)))"





section \<open>Status normalisation\<close>

text \<open>
  A ticket row carries two status columns: the legacy \<open>status\<close> (a string, never null) and
  the newer \<open>complaint_status\<close> (a string, possibly absent or null). Two places of the
  repository reduce the pair to one of the four stages \<open>submitted\<close>, \<open>accepted\<close>,
  \<open>in_progress\<close>, \<open>closed\<close>: the dashboard's \<open>normalizeStatus\<close> and the inline
  computation of \<open>GET /api/grievances/track/:ticket\<close>. Both are embedded on the two columns
  they read; an absent or null \<open>complaint_status\<close> is \<open>None\<close>.
\<close>

definition normalizeStatus :: "string \<Rightarrow> string option \<Rightarrow> string" where
  "normalizeStatus status complaint_status =
     (if complaint_status = Some ''accepted'' then ''accepted''
      else if complaint_status = Some ''in_progress'' then ''in_progress''
      else if complaint_status = Some ''closed'' then ''closed''
      else if status = ''resolved'' then ''closed''
      else if status = ''under_review'' \<or> status = ''assigned'' \<or> status = ''escalated''
              \<or> status = ''reopened'' then ''accepted''
      else if status = ''in_progress'' \<or> status = ''awaiting_confirmation'' then ''in_progress''
      else if status = ''closed'' then ''closed''
      else ''submitted'')"

text \<open>
  The tracking endpoint first computes \<open>String(grievance.complaint_status ?? "")\<close>, so an
  absent coarse value is the empty string there.
\<close>

definition tracking_stage :: "string \<Rightarrow> string option \<Rightarrow> string" where
  "tracking_stage status complaint_status =
     (let complaintStatus = (case complaint_status of None \<Rightarrow> '''' | Some c \<Rightarrow> c) in
      if complaintStatus = ''closed'' \<or> status = ''closed'' then ''closed''
      else if status = ''resolved'' then ''closed''
      else if complaintStatus = ''in_progress'' \<or> status = ''in_progress''
              \<or> status = ''awaiting_confirmation'' then ''in_progress''
      else if complaintStatus = ''accepted'' \<or> status = ''under_review'' \<or> status = ''assigned''
              \<or> status = ''escalated'' \<or> status = ''reopened'' then ''accepted''
      else ''submitted'')"

text \<open>
  The coarse vocabulary, as the client's \<open>Grievance\<close> type declares it
  (\<open>"pending" | "accepted" | "in_progress" | "closed"\<close>), and its column text.
\<close>

datatype complaint_status = Pending | Accepted | In_progress | Closed

fun complaint_status_text :: "complaint_status \<Rightarrow> string" where
  "complaint_status_text Pending = ''pending''"
| "complaint_status_text Accepted = ''accepted''"
| "complaint_status_text In_progress = ''in_progress''"
| "complaint_status_text Closed = ''closed''"

text \<open>
  The normaliser as the specification words it: the fixed table for the legacy value, and the
  precedence of a present coarse value other than the default \<open>pending\<close>.
\<close>

definition spec_legacy_stage :: "string \<Rightarrow> string" where
  "spec_legacy_stage legacy =
     (if legacy \<in> {''resolved'', ''closed''} then ''closed''
      else if legacy \<in> {''under_review'', ''assigned'', ''escalated'', ''reopened''} then ''accepted''
      else if legacy \<in> {''in_progress'', ''awaiting_confirmation''} then ''in_progress''
      else ''submitted'')"

definition spec_normalize :: "string \<Rightarrow> complaint_status option \<Rightarrow> string" where
  "spec_normalize legacy coarse =
     (case coarse of
        None \<Rightarrow> spec_legacy_stage legacy
      | Some c \<Rightarrow> if c = Pending then spec_legacy_stage legacy else complaint_status_text c)"

text \<open>The pairs on which the two code paths give different stages.\<close>

definition stages_differ :: "string \<Rightarrow> string option \<Rightarrow> bool" where
  "stages_differ status complaint_status =
     ((complaint_status = Some ''in_progress'' \<and> status \<in> {''closed'', ''resolved''})
      \<or> (complaint_status = Some ''accepted''
          \<and> status \<in> {''closed'', ''resolved'', ''in_progress'', ''awaiting_confirmation''}))"

section \<open>Status normalisation: results\<close>

lemma normalizeStatus_legacy:
  "complaint_status \<notin> {Some ''accepted'', Some ''in_progress'', Some ''closed''}
   \<Longrightarrow> normalizeStatus status complaint_status = spec_legacy_stage status"
  by (auto simp: normalizeStatus_def spec_legacy_stage_def)

text \<open>
  C2. On every pair of a legacy status and a (typed) coarse status, \<open>normalizeStatus\<close>
  returns the stage of the coarse value when that value is present and not \<open>pending\<close>, and
  otherwise the stage the fixed table gives the legacy value; the three sample values of the
  specification are as stated.
\<close>

theorem normalizeStatus_refines_spec:
  "normalizeStatus legacy (map_option complaint_status_text coarse) = spec_normalize legacy coarse
   \<and> normalizeStatus ''resolved'' None = ''closed''
   \<and> normalizeStatus ''in_progress'' (Some ''pending'') = ''in_progress''
   \<and> normalizeStatus ''submitted'' (Some ''accepted'') = ''accepted''"
proof -
  have ex: "normalizeStatus ''resolved'' None = ''closed''
      \<and> normalizeStatus ''in_progress'' (Some ''pending'') = ''in_progress''
      \<and> normalizeStatus ''submitted'' (Some ''accepted'') = ''accepted''"
    by (simp add: normalizeStatus_def)
  have "normalizeStatus legacy (map_option complaint_status_text coarse) = spec_normalize legacy coarse"
  proof (cases coarse)
    case None
    then show ?thesis
      by (simp add: spec_normalize_def normalizeStatus_legacy)
  next
    case (Some c)
    then show ?thesis
      by (cases c) (simp_all add: spec_normalize_def normalizeStatus_legacy, simp_all add: normalizeStatus_def)
  qed
  with ex show ?thesis by simp
qed

theorem normalizeStatus_refines_spec_witness:
  "normalizeStatus ''escalated'' (Some ''pending'') = ''accepted''
   \<and> normalizeStatus ''closed'' (Some ''in_progress'') = ''in_progress''"
  using normalizeStatus_refines_spec [of "''escalated''" "Some Pending"]
        normalizeStatus_refines_spec [of "''closed''" "Some In_progress"]
  by (simp add: spec_normalize_def spec_legacy_stage_def)

text \<open>
  C3. The two code paths are not extensionally equal. On a row whose legacy status is
  \<open>closed\<close> while the coarse status is \<open>accepted\<close>, the dashboard's \<open>normalizeStatus\<close>
  returns \<open>accepted\<close>, which is also the stage the precedence of the specification gives the
  row, and the tracking endpoint returns \<open>closed\<close>.
\<close>

theorem tracking_stage_disagrees_with_normalizeStatus:
  "normalizeStatus ''closed'' (Some ''accepted'') = ''accepted''
   \<and> spec_normalize ''closed'' (Some Accepted) = ''accepted''
   \<and> tracking_stage ''closed'' (Some ''accepted'') = ''closed''
   \<and> normalizeStatus ''closed'' (Some ''accepted'') \<noteq> tracking_stage ''closed'' (Some ''accepted'')"
  by (simp add: normalizeStatus_def tracking_stage_def spec_normalize_def)

text \<open>
  The extent of the disagreement: the two code paths return different stages exactly on the
  pairs of \<open>stages_differ\<close>, where the tracking endpoint follows the legacy value and the
  dashboard the coarse one.
\<close>

lemma stage_paths_differ_iff:
  "(normalizeStatus status complaint_status \<noteq> tracking_stage status complaint_status)
   = stages_differ status complaint_status"
proof (cases complaint_status)
  case None
  then show ?thesis
    by (auto simp: normalizeStatus_def tracking_stage_def stages_differ_def)
next
  case (Some c)
  then show ?thesis
    by (auto simp: normalizeStatus_def tracking_stage_def stages_differ_def)
qed

section \<open>Evaluation rules\<close>

lemma digits_of_last: "b < 2 \<or> n < b \<Longrightarrow> digits_of b n = [n]"
  by (simp add: digits_of.simps)

lemma digits_of_more:
  "\<not> (b < 2 \<or> n < b) \<Longrightarrow> digits_of b n = digits_of b (n div b) @ [n mod b]"
  by (subst digits_of.simps) simp

lemmas eval_text =
  digits_of_last digits_of_more toString_radix_def digit_char_def String_of_int_def
  trim_def is_ws_def toLowerCase_def toUpperCase_def lower_char_def upper_char_def startsWith_def

section \<open>Identity resolver: results\<close>

lemma find_bound_after_update:
  assumes "find (\<lambda>u. u_telegram_chat_id u = Some c) us = None" and "b \<in> set us" and "i = u_id b"
  shows "\<exists>r. find (\<lambda>u. u_telegram_chat_id u = Some c)
               (map (\<lambda>u. if u_id u = i then u\<lparr>u_telegram_chat_id := Some c\<rparr> else u) us) = Some r
             \<and> u_id r = i"
  using assms
proof (induction us)
  case Nil
  then show ?case by simp
next
  case (Cons a us)
  then show ?case by (auto split: if_splits)
qed

lemma find_bound_after_insert:
  "find P us = None \<Longrightarrow> P n \<Longrightarrow> find P (us @ [n]) = Some n"
  by (induction us) (auto split: if_splits)

lemma ensure_binds:
  assumes "ensureTelegramCitizen chat user w = (uid1, w1)"
  shows "\<exists>r. find (\<lambda>u. u_telegram_chat_id u = Some chat) (users w1) = Some r \<and> u_id r = uid1"
proof (cases "find (\<lambda>u. u_telegram_chat_id u = Some chat) (users w)")
  case (Some e)
  with assms show ?thesis by (auto simp: ensureTelegramCitizen_def)
next
  case None
  show ?thesis
  proof (cases "find (\<lambda>u. u_email u = fallbackEmail chat) (users w)")
    case (Some b)
    then have "b \<in> set (users w)" by (auto simp: find_Some_iff)
    from find_bound_after_update [OF None this refl] assms None Some
    show ?thesis by (auto simp: ensureTelegramCitizen_def)
  next
    case n2: None
    with assms None show ?thesis
      by (auto simp: ensureTelegramCitizen_def Let_def find_bound_after_insert)
  qed
qed

lemma ensure_again:
  assumes "ensureTelegramCitizen chat user w = (uid1, w1)"
  shows "ensureTelegramCitizen chat user2 w1 = (uid1, w1)"
  using ensure_binds [OF assms] by (auto simp: ensureTelegramCitizen_def)

lemma ensure_length:
  assumes "ensureTelegramCitizen chat user w = (uid1, w1)"
  shows "length (users w1) \<le> length (users w) + 1"
  using assms by (auto simp: ensureTelegramCitizen_def Let_def split: option.splits)

lemma fold_max_ge: "fold max xs (a::int) \<ge> a"
  by (induction xs arbitrary: a) (auto intro: order_trans [OF max.cobounded2])

lemma fold_max_upper: "x \<in> set xs \<Longrightarrow> x \<le> fold max xs (a::int)"
proof (induction xs arbitrary: a)
  case Nil
  then show ?case by simp
next
  case (Cons y ys)
  then show ?case
    using fold_max_ge [of "max y a" ys] by auto
qed

lemma next_user_id_fresh: "next_user_id us \<notin> set (map u_id us)"
  using fold_max_upper [of "next_user_id us" "map u_id us" 0]
  by (auto simp: next_user_id_def)

lemma find_None_chat:
  "find (\<lambda>u. u_telegram_chat_id u = Some c) us = None
   \<Longrightarrow> c \<notin> set (List.map_filter u_telegram_chat_id us)"
  by (induction us) (auto simp: List.map_filter_simps split: option.splits if_splits)

lemma bind_keeps_ids:
  "map (u_id \<circ> (\<lambda>u. if u_id u = i then u\<lparr>u_telegram_chat_id := Some c\<rparr> else u)) us = map u_id us"
  by (induction us) auto

lemma bind_absent:
  "i \<notin> set (map u_id us)
   \<Longrightarrow> map (\<lambda>u. if u_id u = i then u\<lparr>u_telegram_chat_id := Some c\<rparr> else u) us = us"
  by (induction us) auto

lemma bind_chats:
  assumes "distinct (map u_id us)" and "distinct (List.map_filter u_telegram_chat_id us)"
    and "c \<notin> set (List.map_filter u_telegram_chat_id us)"
  shows "distinct (List.map_filter u_telegram_chat_id
            (map (\<lambda>u. if u_id u = i then u\<lparr>u_telegram_chat_id := Some c\<rparr> else u) us))
         \<and> set (List.map_filter u_telegram_chat_id
            (map (\<lambda>u. if u_id u = i then u\<lparr>u_telegram_chat_id := Some c\<rparr> else u) us))
           \<subseteq> insert c (set (List.map_filter u_telegram_chat_id us))"
  using assms
proof (induction us)
  case Nil
  then show ?case by (simp add: List.map_filter_simps)
next
  case (Cons a us)
  show ?case
  proof (cases "u_id a = i")
    case True
    with Cons.prems have "i \<notin> set (map u_id us)" by auto
    then have same: "map (\<lambda>u. if u_id u = i then u\<lparr>u_telegram_chat_id := Some c\<rparr> else u) us = us"
      by (rule bind_absent)
    from Cons.prems True show ?thesis
      by (auto simp: same List.map_filter_simps split: option.splits)
  next
    case False
    with Cons show ?thesis
      by (auto simp: List.map_filter_simps split: option.splits)
  qed
qed

lemma map_filter_snoc:
  "List.map_filter f (xs @ [x]) = List.map_filter f xs @ (case f x of None \<Rightarrow> [] | Some y \<Rightarrow> [y])"
  by (induction xs) (auto simp: List.map_filter_simps split: option.splits)

lemma ensure_users_ok:
  assumes "users_ok w" and "ensureTelegramCitizen chat user w = (uid1, w1)"
  shows "users_ok w1"
proof (cases "find (\<lambda>u. u_telegram_chat_id u = Some chat) (users w)")
  case (Some e)
  with assms show ?thesis by (auto simp: ensureTelegramCitizen_def)
next
  case None
  note absent = find_None_chat [OF None]
  show ?thesis
  proof (cases "find (\<lambda>u. u_email u = fallbackEmail chat) (users w)")
    case (Some b)
    from assms(1) bind_chats [of "users w" chat "u_id b"] absent
    have "users_ok (w\<lparr>users := map (\<lambda>u. if u_id u = u_id b then u\<lparr>u_telegram_chat_id := Some chat\<rparr> else u) (users w)\<rparr>)"
      by (simp add: users_ok_def bind_keeps_ids)
    with assms(2) None Some show ?thesis by (auto simp: ensureTelegramCitizen_def)
  next
    case n2: None
    from assms(1) absent next_user_id_fresh [of "users w"]
    have "users_ok (w\<lparr>users := users w @ [\<lparr>u_id = next_user_id (users w), u_email = fallbackEmail chat,
                                u_name = fullName chat user, u_role = ''citizen'',
                                u_telegram_chat_id = Some chat\<rparr>]\<rparr>)"
      by (simp add: users_ok_def map_filter_snoc)
    with assms(2) None n2 show ?thesis by (auto simp: ensureTelegramCitizen_def Let_def)
  qed
qed

text \<open>
  C9. Resolving the same chat id twice in a row returns the same account id both times and
  leaves the tables as the first call left them, so the two calls together add at most one
  row to \<open>users\<close>; after the first call the account returned is the one bound to the chat
  id, and the uniqueness of ids and of chat bindings is kept.
\<close>

theorem ensureTelegramCitizen_idempotent:
  assumes "ensureTelegramCitizen chat user w = (uid1, w1)"
    and "ensureTelegramCitizen chat user2 w1 = (uid2, w2)"
  shows "uid2 = uid1 \<and> w2 = w1 \<and> length (users w2) \<le> length (users w) + 1
         \<and> (\<exists>r. find (\<lambda>u. u_telegram_chat_id u = Some chat) (users w1) = Some r \<and> u_id r = uid1)
         \<and> (users_ok w \<longrightarrow> users_ok w1)"
proof -
  from ensure_again [OF assms(1), of user2] assms(2) have same: "uid2 = uid1" "w2 = w1" by simp_all
  with ensure_length [OF assms(1)] ensure_binds [OF assms(1)] ensure_users_ok [OF _ assms(1)]
  show ?thesis by blast
qed

lemma ensure_555:
  "ensureTelegramCitizen ''555'' None seeded_world =
     (3, seeded_world\<lparr>users := users seeded_world @
          [\<lparr>u_id = 3, u_email = ''tg_555@telegram.local'', u_name = ''Telegram User 555'',
            u_role = ''citizen'', u_telegram_chat_id = Some ''555''\<rparr>]\<rparr>)"
  by (simp add: ensureTelegramCitizen_def seeded_world_def fallbackEmail_def next_user_id_def
      fullName_def trim_def is_ws_def)

theorem ensureTelegramCitizen_idempotent_witness:
  "fst (ensureTelegramCitizen ''555'' None seeded_world) = 3
   \<and> fst (ensureTelegramCitizen ''555'' None (snd (ensureTelegramCitizen ''555'' None seeded_world))) = 3
   \<and> length (users (snd (ensureTelegramCitizen ''555'' None
                 (snd (ensureTelegramCitizen ''555'' None seeded_world))))) = 3
   \<and> users_ok seeded_world
   \<and> users_ok (snd (ensureTelegramCitizen ''555'' None seeded_world))"
proof -
  have ok: "users_ok seeded_world"
    by (simp add: users_ok_def seeded_world_def List.map_filter_simps)
  from ensureTelegramCitizen_idempotent [OF ensure_555 prod.collapse [symmetric], of None] ok
  show ?thesis by (simp add: ensure_555) (simp add: seeded_world_def)
qed

section \<open>Webhook: results\<close>

lemma sample_config_values:
  "TELEGRAM_BOT_TOKEN sample_config = ''12345:token''"
  "TELEGRAM_WEBHOOK_SECRET sample_config = ''s3cret''"
  "isTelegramEnabled sample_config"
  by (simp_all add: isTelegramEnabled_def TELEGRAM_BOT_TOKEN_def TELEGRAM_WEBHOOK_SECRET_def sample_config_def
      trim_def is_ws_def)

text \<open>
  C8. When a webhook secret is configured and the request's secret header (absent: the empty
  text) differs from it, the route answers with an error and the state is the one it started
  from: no ledger entry, no session, no ticket, no call to the platform. The answer is 401,
  or 503 when the bot credential is missing, which is tested first.
\<close>

theorem webhook_rejects_bad_secret:
  assumes "TELEGRAM_WEBHOOK_SECRET cfg \<noteq> []"
    and "(case secret_token_header req of None \<Rightarrow> [] | Some s \<Rightarrow> s) \<noteq> TELEGRAM_WEBHOOK_SECRET cfg"
  shows "telegram_webhook cfg now req w =
           (if isTelegramEnabled cfg
            then (Json_response 401 (Error_body ''Invalid webhook secret''), w)
            else (Json_response 503 (Error_body ''Telegram integration is disabled''), w))"
  using assms by (simp add: telegram_webhook_def webhook_route_def)

theorem webhook_rejects_bad_secret_witness:
  "telegram_webhook sample_config 1730000000000
     \<lparr>secret_token_header = Some ''guess'', body = Some (text_update 42 555 ''/start'')\<rparr> seeded_world
   = (Json_response 401 (Error_body ''Invalid webhook secret''), seeded_world)
   \<and> telegram_webhook sample_config 1730000000000
     \<lparr>secret_token_header = None, body = Some (text_update 42 555 ''/start'')\<rparr> seeded_world
   = (Json_response 401 (Error_body ''Invalid webhook secret''), seeded_world)"
  using webhook_rejects_bad_secret [of sample_config
          "\<lparr>secret_token_header = Some ''guess'', body = Some (text_update 42 555 ''/start'')\<rparr>"
          1730000000000 seeded_world]
        webhook_rejects_bad_secret [of sample_config
          "\<lparr>secret_token_header = None, body = Some (text_update 42 555 ''/start'')\<rparr>"
          1730000000000 seeded_world]
  by (simp add: sample_config_values)

text \<open>
  C10. With the bot credential set and the secret check passed, a request whose body is
  missing, or whose \<open>update_id\<close> is not a number, is answered with 400 and the state is the
  one the route started from.
\<close>

theorem webhook_rejects_invalid_payload:
  assumes "isTelegramEnabled cfg"
    and "TELEGRAM_WEBHOOK_SECRET cfg = []
         \<or> (case secret_token_header req of None \<Rightarrow> [] | Some s \<Rightarrow> s) = TELEGRAM_WEBHOOK_SECRET cfg"
    and "body req = None \<or> (\<exists>u. body req = Some u \<and> (\<forall>n. update_id u \<noteq> JS_number n))"
  shows "telegram_webhook cfg now req w = (Json_response 400 (Error_body ''Invalid update payload''), w)"
  using assms
  by (auto simp: telegram_webhook_def webhook_route_def split: option.splits js_value.splits)

theorem webhook_rejects_invalid_payload_witness:
  "telegram_webhook sample_config 1730000000000
     \<lparr>secret_token_header = Some ''s3cret'', body = None\<rparr> seeded_world
   = (Json_response 400 (Error_body ''Invalid update payload''), seeded_world)
   \<and> telegram_webhook sample_config 1730000000000
     \<lparr>secret_token_header = Some ''s3cret'',
      body = Some ((text_update 42 555 ''/start'')\<lparr>update_id := JS_string ''42''\<rparr>)\<rparr> seeded_world
   = (Json_response 400 (Error_body ''Invalid update payload''), seeded_world)"
  using webhook_rejects_invalid_payload [of sample_config
          "\<lparr>secret_token_header = Some ''s3cret'', body = None\<rparr>" 1730000000000 seeded_world]
        webhook_rejects_invalid_payload [of sample_config
          "\<lparr>secret_token_header = Some ''s3cret'',
            body = Some ((text_update 42 555 ''/start'')\<lparr>update_id := JS_string ''42''\<rparr>)\<rparr>"
          1730000000000 seeded_world]
  by (simp add: sample_config_values)

lemma seen_update_raises:
  "seen_update w uid = Inl (Sqlite_error (''near '' @ [CHR 0x22] @ ''exists'' @ [CHR 0x22] @ '': syntax error''))"
  by (simp add: seen_update_def prepare_with_alias_def sqlite_reserved_def toLowerCase_def lower_char_def)

lemma telegram_webhook_valid_update:
  assumes "isTelegramEnabled cfg"
    and "TELEGRAM_WEBHOOK_SECRET cfg = []
         \<or> (case secret_token_header req of None \<Rightarrow> [] | Some s \<Rightarrow> s) = TELEGRAM_WEBHOOK_SECRET cfg"
    and "body req = Some u" and "update_id u = JS_number uid"
  shows "telegram_webhook cfg now req w =
           (Unhandled_rejection (Sqlite_error (''near '' @ [CHR 0x22] @ ''exists'' @ [CHR 0x22] @ '': syntax error'')), w)"
  using assms by (auto simp: telegram_webhook_def webhook_route_def seen_update_raises)

text \<open>
  C1, on the route as written. A well-formed update that passes the secret check reaches the
  duplicate check, whose statement cannot be prepared: the route raises there, sends no
  response, and records nothing. So the first delivery of update 42 leaves the ledger empty
  instead of holding one entry, and a delivery of an update whose id the ledger already
  holds is not acknowledged.
\<close>

theorem telegram_webhook_duplicate_check_raises:
  "telegram_webhook sample_config 1730000000000
     \<lparr>secret_token_header = Some ''s3cret'', body = Some (text_update 42 555 ''/start'')\<rparr> seeded_world
   = (Unhandled_rejection (Sqlite_error (''near '' @ [CHR 0x22] @ ''exists'' @ [CHR 0x22] @ '': syntax error'')),
      seeded_world)
   \<and> telegram_updates seeded_world = []
   \<and> telegram_webhook sample_config 1730000000000
     \<lparr>secret_token_header = Some ''s3cret'', body = Some (text_update 42 555 ''/start'')\<rparr>
     (seeded_world\<lparr>telegram_updates := [42]\<rparr>)
   = (Unhandled_rejection (Sqlite_error (''near '' @ [CHR 0x22] @ ''exists'' @ [CHR 0x22] @ '': syntax error'')),
      seeded_world\<lparr>telegram_updates := [42]\<rparr>)"
  by (simp add: telegram_webhook_valid_update [where u = "text_update 42 555 ''/start''" and uid = 42]
      sample_config_values text_update_def) (simp add: seeded_world_def)

section \<open>Conversation handlers: results\<close>




lemma handleTelegramCallback_cancel:
  assumes "callback_query update = Some cb" and "cb_message cb = Some msg"
    and "cb_data cb = Some ''confirm:cancel''"
  shows "handleTelegramCallback cfg now update w =
           (let chat = String_of_int (msg_chat_id msg);
                session1 = (fst (getTelegramSession chat w))\<lparr>state := Idle, draft := empty_draft\<rparr>
            in (None, sendTelegramMessage cfg chat (TgT (language session1) Cancelled []) None
                 (saveTelegramSession session1
                    (answerTelegramCallback cfg (cb_id cb) (snd (getTelegramSession chat w))))))"
  using assms
  by (simp add: handleTelegramCallback_def Let_def split_def startsWith_def)

lemma getTelegramSession_chatId [simp]: "chatId (fst (getTelegramSession chat w)) = chat"
  by (simp add: getTelegramSession_def Let_def split: option.splits)

lemma getTelegramSession_tables [simp]:
  "users (snd (getTelegramSession chat w)) = users w"
  "grievances (snd (getTelegramSession chat w)) = grievances w"
  "grievance_categories (snd (getTelegramSession chat w)) = grievance_categories w"
  "telegram_updates (snd (getTelegramSession chat w)) = telegram_updates w"
  "outbox (snd (getTelegramSession chat w)) = outbox w"
  by (simp_all add: getTelegramSession_def Let_def split: option.splits)


lemma callTelegramApi_tables [simp]:
  "users (callTelegramApi cfg call w) = users w"
  "grievances (callTelegramApi cfg call w) = grievances w"
  "grievance_categories (callTelegramApi cfg call w) = grievance_categories w"
  "telegram_updates (callTelegramApi cfg call w) = telegram_updates w"
  "telegram_sessions (callTelegramApi cfg call w) = telegram_sessions w"
  by (simp_all add: callTelegramApi_def)

lemma category_by_id_tables [simp]:
  "category_by_id (callTelegramApi cfg call w) n = category_by_id w n"
  "category_by_id (snd (getTelegramSession chat w)) n = category_by_id w n"
  "category_by_id (saveTelegramSession s w) n = category_by_id w n"
  by (simp_all add: category_by_id_def saveTelegramSession_def split: option.splits)

lemma saveTelegramSession_tables [simp]:
  "users (saveTelegramSession s w) = users w"
  "grievances (saveTelegramSession s w) = grievances w"
  "grievance_categories (saveTelegramSession s w) = grievance_categories w"
  "telegram_updates (saveTelegramSession s w) = telegram_updates w"
  "outbox (saveTelegramSession s w) = outbox w"
  "telegram_sessions (saveTelegramSession s w) = (telegram_sessions w)(chatId s \<mapsto> session_row s)"
  by (simp_all add: saveTelegramSession_def)



lemma str55x: "String_of_int 555 = ''555''" "String_of_int 556 = ''556''"
  by (simp_all add: eval_text)






lemma getTelegramSession_new:
  "telegram_sessions w chat = None \<Longrightarrow>
   getTelegramSession chat w =
     (new_session chat, w\<lparr>telegram_sessions := (telegram_sessions w)(chat \<mapsto> session_row (new_session chat))\<rparr>)"
  by (simp add: getTelegramSession_def new_session_def Let_def)

lemma ensure_sessions [simp]:
  "telegram_sessions (snd (ensureTelegramCitizen chat user w)) = telegram_sessions w"
  by (simp add: ensureTelegramCitizen_def Let_def split: option.splits)




lemma stored_save [simp]:
  "stored (saveTelegramSession s w) (chatId s) = Some (state s, draft s)"
  by (simp add: stored_def session_row_def)

lemma stored_call [simp]: "stored (callTelegramApi cfg call w) chat = stored w chat"
  by (simp add: stored_def)




lemma callback_lang_invalid:
  assumes "callback_query update = Some cb" and "cb_message cb = Some msg"
    and "(case cb_data cb of None \<Rightarrow> [] | Some d \<Rightarrow> d) = data"
    and "startsWith data ''lang:''" and "parseTelegramLanguage (Some (drop (length ''lang:'') data)) = None"
  shows "handleTelegramCallback cfg now update w =
           (None, answerTelegramCallback cfg (cb_id cb) (snd (getTelegramSession (String_of_int (msg_chat_id msg)) w)))"
  using assms by (simp add: handleTelegramCallback_def Let_def split_def)

lemma callback_lang_valid:
  assumes "callback_query update = Some cb" and "cb_message cb = Some msg"
    and "(case cb_data cb of None \<Rightarrow> [] | Some d \<Rightarrow> d) = data"
    and "startsWith data ''lang:''" and "parseTelegramLanguage (Some (drop (length ''lang:'') data)) = Some selected"
  shows "handleTelegramCallback cfg now update w =
           (let chat = String_of_int (msg_chat_id msg);
                w2 = answerTelegramCallback cfg (cb_id cb) (snd (getTelegramSession chat w));
                r = ensureTelegramCitizen chat (Some (cb_from cb)) w2;
                session1 = (fst (getTelegramSession chat w))
                             \<lparr>language := selected, state := Awaiting_category, userId := Some (fst r)\<rparr>;
                w4 = saveTelegramSession session1 (snd r)
            in (None, sendTelegramMessage cfg chat
                  (Lines (TgT selected LanguageSet []) (TgT selected ChooseCategory []))
                  (Some (categoryKeyboard w4)) w4))"
  using assms by (simp add: handleTelegramCallback_def Let_def split_def)

lemma callback_cat_unknown:
  assumes "callback_query update = Some cb" and "cb_message cb = Some msg"
    and "(case cb_data cb of None \<Rightarrow> [] | Some d \<Rightarrow> d) = data"
    and "\<not> startsWith data ''lang:''" and "startsWith data ''cat:''"
    and "category_by_id w (Number_of_string (drop (length ''cat:'') data)) = None"
  shows "handleTelegramCallback cfg now update w =
           (None, answerTelegramCallback cfg (cb_id cb) (snd (getTelegramSession (String_of_int (msg_chat_id msg)) w)))"
  using assms by (simp add: handleTelegramCallback_def Let_def split_def answerTelegramCallback_def)

lemma callback_cat_known:
  assumes "callback_query update = Some cb" and "cb_message cb = Some msg"
    and "(case cb_data cb of None \<Rightarrow> [] | Some d \<Rightarrow> d) = data"
    and "\<not> startsWith data ''lang:''" and "startsWith data ''cat:''"
    and "category_by_id w (Number_of_string (drop (length ''cat:'') data)) = Some category"
  shows "handleTelegramCallback cfg now update w =
           (let chat = String_of_int (msg_chat_id msg);
                session = fst (getTelegramSession chat w);
                session1 = session\<lparr>draft := (draft session)\<lparr>categoryId := Some (fst category),
                                             categoryName := Some (snd category)\<rparr>,
                                   state := Awaiting_description\<rparr>
            in (None, sendTelegramMessage cfg chat (TgT (language session) EnterDescription []) None
                  (saveTelegramSession session1
                     (answerTelegramCallback cfg (cb_id cb) (snd (getTelegramSession chat w))))))"
  using assms by (simp add: handleTelegramCallback_def Let_def split_def answerTelegramCallback_def)

lemma callback_submit:
  assumes "callback_query update = Some cb" and "cb_message cb = Some msg"
    and "cb_data cb = Some ''confirm:submit''"
  shows "handleTelegramCallback cfg now update w =
           (let chat = String_of_int (msg_chat_id msg);
                session = fst (getTelegramSession chat w);
                w2 = answerTelegramCallback cfg (cb_id cb) (snd (getTelegramSession chat w))
            in case submitTelegramComplaint session chat now w2 of
                 (Inl e, w3) \<Rightarrow> (Some e, w3)
               | (Inr (None, session1), w3) \<Rightarrow>
                   (None, sendTelegramMessage cfg chat (TgT (language session1) Unknown []) None w3)
               | (Inr (Some ticket, session1), w3) \<Rightarrow>
                   (None, sendTelegramMessage cfg chat
                      (TgT (language session1) Submitted [(''ticket'', ticket)]) None w3))"
  using assms by (simp add: handleTelegramCallback_def Let_def split_def startsWith_def)

lemma callback_other:
  assumes "callback_query update = Some cb" and "cb_message cb = Some msg"
    and "(case cb_data cb of None \<Rightarrow> [] | Some d \<Rightarrow> d) = data"
    and "\<not> startsWith data ''lang:''" and "\<not> startsWith data ''cat:''"
    and "data \<noteq> ''confirm:cancel''" and "data \<noteq> ''confirm:submit''"
  shows "handleTelegramCallback cfg now update w =
           (None, answerTelegramCallback cfg (cb_id cb) (snd (getTelegramSession (String_of_int (msg_chat_id msg)) w)))"
  using assms by (simp add: handleTelegramCallback_def Let_def split_def)

lemma stored_answer [simp]: "stored (answerTelegramCallback cfg i w) chat = stored w chat"
  by (simp add: answerTelegramCallback_def)

lemma stored_send [simp]: "stored (sendTelegramMessage cfg c t k w) chat = stored w chat"
  by (simp add: sendTelegramMessage_def)

lemma stored_new [simp]:
  "telegram_sessions w chat = None \<Longrightarrow> stored (snd (getTelegramSession chat w)) chat = Some (Awaiting_language, empty_draft)"
  by (simp add: getTelegramSession_new stored_def session_row_def new_session_def)

lemma fst_new [simp]:
  "telegram_sessions w chat = None \<Longrightarrow> fst (getTelegramSession chat w) = new_session chat"
  by (simp add: getTelegramSession_new)

lemma category_by_id_answer [simp]:
  "category_by_id (answerTelegramCallback cfg i w) n = category_by_id w n"
  by (simp add: answerTelegramCallback_def)

lemma stored_save_at [simp]:
  "chatId s = chat \<Longrightarrow> stored (saveTelegramSession s w) chat = Some (state s, draft s)"
  by (auto simp: stored_def session_row_def)





section \<open>Ticket writer: results\<close>


lemma draft_ok_empty [simp]: "draft_ok empty_draft"
  by (simp add: draft_ok_def empty_draft_def)

lemma draft_ok_steps [simp]:
  "draft_ok d \<Longrightarrow> draft_ok (d\<lparr>categoryId := c, categoryName := n\<rparr>)"
  "draft_ok d \<Longrightarrow> \<not> length t < 10 \<Longrightarrow> draft_ok (d\<lparr>description := Some t\<rparr>)"
  "draft_ok d \<Longrightarrow> draft_ok (d\<lparr>latitude := Some lat, longitude := Some lng, location := Some l\<rparr>)"
  "draft_ok d \<Longrightarrow> 3 \<le> length t \<Longrightarrow> draft_ok (d\<lparr>location := Some t, latitude := None, longitude := None\<rparr>)"
  by (auto simp: draft_ok_def split: option.splits)


lemma sessions_ok_call [simp]:
  "sessions_ok (callTelegramApi cfg call w) = sessions_ok w"
  "sessions_ok (sendTelegramMessage cfg c t k w) = sessions_ok w"
  "sessions_ok (answerTelegramCallback cfg i w) = sessions_ok w"
  "sessions_ok (snd (ensureTelegramCitizen c u w)) = sessions_ok w"
  by (simp_all add: sessions_ok_def sendTelegramMessage_def answerTelegramCallback_def)

lemma sessions_ok_save [simp]:
  "sessions_ok w \<Longrightarrow> draft_ok (draft s) \<Longrightarrow> sessions_ok (saveTelegramSession s w)"
  by (simp add: sessions_ok_def session_row_def)





lemma snd_submit_reply:
  "snd (case r of
          (Inl e, w3) \<Rightarrow> (Some e, w3)
        | (Inr (None, session1), w3) \<Rightarrow> (None, sendTelegramMessage cfg chat (a session1) None w3)
        | (Inr (Some ticket, session1), w3) \<Rightarrow> (None, sendTelegramMessage cfg chat (b ticket session1) None w3))
   = (case fst r of Inl e \<Rightarrow> snd r
      | Inr (None, session1) \<Rightarrow> sendTelegramMessage cfg chat (a session1) None (snd r)
      | Inr (Some ticket, session1) \<Rightarrow> sendTelegramMessage cfg chat (b ticket session1) None (snd r))"
  by (cases r) (auto split: sum.splits option.splits)






lemmas eval_handlers =
  dispatch_update_def handleTelegramMessage_def handleTelegramCallback_def text_update_def text_message_def
  button_update_def str55x getTelegramSession_def Let_def eval_text saveTelegramSession_def
  sendTelegramMessage_def answerTelegramCallback_def callTelegramApi_def session_row_def sample_config_values
  parseTelegramLanguage_def ensureTelegramCitizen_def fallbackEmail_def next_user_id_def fullName_def
  category_by_id_def Number_of_string_def categoryKeyboard_def getTelegramCategories_def





lemma ticket_1730000000000: "telegram_ticket 1730000000000 = ''TGM-M2R1BZ7K''"
  by (simp add: telegram_ticket_def eval_text)

lemmas eval_submit =
  submitTelegramComplaint_def insert_grievance_def ticket_1730000000000 sample_draft_def empty_draft_def

lemma submit_collision:
  assumes "telegram_ticket now \<in> set (map ticket_number (grievances w))"
    and "userId s = Some u" and "u \<noteq> 0" and "categoryId (draft s) = Some c" and "c \<noteq> 0"
    and "description (draft s) = Some d" and "d \<noteq> []" and "location (draft s) = Some l" and "l \<noteq> []"
  shows "submitTelegramComplaint s chat now w =
           (Inl (Sqlite_error ''UNIQUE constraint failed: grievances.ticket_number''), w)"
  using assms by (simp add: submitTelegramComplaint_def insert_grievance_def Let_def)


text \<open>
  C4, on the code. The ticket is the prefix \<open>TGM-\<close> and the millisecond clock in base 36,
  upper case, with no suffix. Chats 555 and 556 both confirm in the same millisecond: the
  first gets ticket \<open>TGM-M2R1BZ7K\<close>, the second computes the same ticket, its insert is
  refused by the uniqueness of \<open>ticket_number\<close> and raises, no second ticket exists, chat 556
  gets no reply and its session still waits for confirmation.
\<close>

theorem same_millisecond_ticket_collision:
  "fst (handleTelegramCallback sample_config 1730000000000 (button_update 10 555 ''confirm:submit'')
          confirming_world) = None
   \<and> map ticket_number (grievances (snd (handleTelegramCallback sample_config 1730000000000
          (button_update 10 555 ''confirm:submit'') confirming_world))) = [''TGM-M2R1BZ7K'']
   \<and> fst (handleTelegramCallback sample_config 1730000000000 (button_update 11 556 ''confirm:submit'')
          (snd (handleTelegramCallback sample_config 1730000000000
                  (button_update 10 555 ''confirm:submit'') confirming_world)))
       = Some (Sqlite_error ''UNIQUE constraint failed: grievances.ticket_number'')
   \<and> map ticket_number (grievances (snd (handleTelegramCallback sample_config 1730000000000
          (button_update 11 556 ''confirm:submit'')
          (snd (handleTelegramCallback sample_config 1730000000000
                  (button_update 10 555 ''confirm:submit'') confirming_world))))) = [''TGM-M2R1BZ7K'']
   \<and> stored (snd (handleTelegramCallback sample_config 1730000000000
          (button_update 11 556 ''confirm:submit'')
          (snd (handleTelegramCallback sample_config 1730000000000
                  (button_update 10 555 ''confirm:submit'') confirming_world)))) ''556''
       = Some (Awaiting_confirmation, sample_draft)
   \<and> outbox (snd (handleTelegramCallback sample_config 1730000000000
          (button_update 11 556 ''confirm:submit'')
          (snd (handleTelegramCallback sample_config 1730000000000
                  (button_update 10 555 ''confirm:submit'') confirming_world))))
       = [AnswerCallbackQuery ''cb'',
          SendMessage ''555'' (TgT Hi Submitted [(''ticket'', ''TGM-M2R1BZ7K'')]) None,
          AnswerCallbackQuery ''cb'']"
  by (simp add: confirming_world_def seeded_world_def eval_handlers eval_submit stored_def startsWith_def)

section \<open>What the handlers leave alone\<close>

text \<open>
  Neither handler touches the ledger of update ids, and one update adds at most one ticket.
\<close>


lemma ensure_frame [simp]:
  "grievances (snd (ensureTelegramCitizen chat user w)) = grievances w"
  "telegram_updates (snd (ensureTelegramCitizen chat user w)) = telegram_updates w"
  by (simp_all add: ensureTelegramCitizen_def Let_def split: option.splits)

lemma send_frame [simp]:
  "grievances (sendTelegramMessage cfg c t k w) = grievances w"
  "telegram_updates (sendTelegramMessage cfg c t k w) = telegram_updates w"
  "grievances (answerTelegramCallback cfg i w) = grievances w"
  "telegram_updates (answerTelegramCallback cfg i w) = telegram_updates w"
  by (simp_all add: sendTelegramMessage_def answerTelegramCallback_def)

lemma message_frame:
  "grievances (handleTelegramMessage cfg update w) = grievances w
   \<and> telegram_updates (handleTelegramMessage cfg update w) = telegram_updates w"
proof (cases "message update")
  case None
  then show ?thesis by (simp add: handleTelegramMessage_def)
next
  case (Some msg)
  then show ?thesis
    by (simp add: handleTelegramMessage_def Let_def split_def split: option.splits list.splits)
qed

lemma submit_frame:
  "telegram_updates (snd (submitTelegramComplaint s chat now w)) = telegram_updates w
   \<and> length (grievances (snd (submitTelegramComplaint s chat now w))) \<le> length (grievances w) + 1"
  by (auto simp: submitTelegramComplaint_def insert_grievance_def Let_def split: option.splits)

lemma callback_frame:
  "telegram_updates (snd (handleTelegramCallback cfg now update w)) = telegram_updates w
   \<and> length (grievances (snd (handleTelegramCallback cfg now update w))) \<le> length (grievances w) + 1"
proof (cases "callback_query update")
  case None
  then show ?thesis by (simp add: handleTelegramCallback_def)
next
  case (Some cb)
  show ?thesis
  proof (cases "cb_message cb")
    case None
    with Some show ?thesis by (simp add: handleTelegramCallback_def)
  next
    case msg: (Some msg)
    define data where "data = (case cb_data cb of None \<Rightarrow> [] | Some d \<Rightarrow> d)"
    note d = data_def [symmetric]
    consider (lang_bad) "startsWith data ''lang:''" "parseTelegramLanguage (Some (drop (length ''lang:'') data)) = None"
      | (lang_ok) l where "startsWith data ''lang:''" "parseTelegramLanguage (Some (drop (length ''lang:'') data)) = Some l"
      | (cat_bad) "\<not> startsWith data ''lang:''" "startsWith data ''cat:''"
          "category_by_id w (Number_of_string (drop (length ''cat:'') data)) = None"
      | (cat_ok) c where "\<not> startsWith data ''lang:''" "startsWith data ''cat:''"
          "category_by_id w (Number_of_string (drop (length ''cat:'') data)) = Some c"
      | (cancel) "data = ''confirm:cancel''"
      | (submit) "data = ''confirm:submit''"
      | (other) "\<not> startsWith data ''lang:''" "\<not> startsWith data ''cat:''" "data \<noteq> ''confirm:cancel''"
          "data \<noteq> ''confirm:submit''"
      by (cases "parseTelegramLanguage (Some (drop (length ''lang:'') data))";
          cases "category_by_id w (Number_of_string (drop (length ''cat:'') data))") auto
    then show ?thesis
    proof cases
      case lang_bad
      with callback_lang_invalid [OF Some msg d lang_bad, of cfg now w] show ?thesis by simp
    next
      case lang_ok
      with callback_lang_valid [OF Some msg d lang_ok, of cfg now w] show ?thesis by (simp add: Let_def)
    next
      case cat_bad
      with callback_cat_unknown [OF Some msg d cat_bad, of cfg now] show ?thesis by simp
    next
      case cat_ok
      with callback_cat_known [OF Some msg d cat_ok, of cfg now] show ?thesis by (simp add: Let_def)
    next
      case cancel
      then have c: "cb_data cb = Some ''confirm:cancel''" by (auto simp: data_def split: option.splits)
      from handleTelegramCallback_cancel [OF Some msg c, of cfg now w] show ?thesis by (simp add: Let_def)
    next
      case submit
      then have c: "cb_data cb = Some ''confirm:submit''" by (auto simp: data_def split: option.splits)
      from submit_frame [of "fst (getTelegramSession (String_of_int (msg_chat_id msg)) w)"
               "String_of_int (msg_chat_id msg)" now
               "answerTelegramCallback cfg (cb_id cb) (snd (getTelegramSession (String_of_int (msg_chat_id msg)) w))"]
           callback_submit [OF Some msg c, of cfg now w] show ?thesis
        by (simp add: Let_def snd_submit_reply split: sum.splits option.splits prod.splits)
    next
      case other
      with callback_other [OF Some msg d other, of cfg now w] show ?thesis by simp
    qed
  qed
qed

lemma dispatch_frame:
  "telegram_updates (dispatch_update cfg now update w) = telegram_updates w
   \<and> length (grievances (dispatch_update cfg now update w)) \<le> length (grievances w) + 1"
  using callback_frame [of cfg now update w] message_frame [of cfg update w]
  by (simp add: dispatch_update_def)

section \<open>Webhook: the route over a lookup that can be prepared\<close>

text \<open>
  The route over \<open>ledger_lookup\<close> in place of \<open>seen_update\<close>, that is with the duplicate
  check's statement under an alias the engine accepts. Then an update whose id the ledger
  holds is acknowledged as a duplicate with the state untouched, and two deliveries of one
  update leave one ledger entry for it and at most one more ticket.
\<close>

lemma lookup_seen:
  assumes "isTelegramEnabled cfg"
    and "TELEGRAM_WEBHOOK_SECRET cfg = []
         \<or> (case secret_token_header req of None \<Rightarrow> [] | Some s \<Rightarrow> s) = TELEGRAM_WEBHOOK_SECRET cfg"
    and "body req = Some u" and "update_id u = JS_number uid"
    and "uid \<in> set (telegram_updates w)"
  shows "webhook_route ledger_lookup cfg now req w = (Json_response 200 Ok_duplicate_body, w)"
  using assms by (auto simp: webhook_route_def ledger_lookup_def)

lemma lookup_unseen:
  assumes "isTelegramEnabled cfg"
    and "TELEGRAM_WEBHOOK_SECRET cfg = []
         \<or> (case secret_token_header req of None \<Rightarrow> [] | Some s \<Rightarrow> s) = TELEGRAM_WEBHOOK_SECRET cfg"
    and "body req = Some u" and "update_id u = JS_number uid"
    and "uid \<notin> set (telegram_updates w)"
  shows "webhook_route ledger_lookup cfg now req w =
           (Json_response 200 Ok_body,
            dispatch_update cfg now u (w\<lparr>telegram_updates := telegram_updates w @ [uid]\<rparr>))"
  using assms by (auto simp: webhook_route_def ledger_lookup_def)

lemma lookup_replay:
  assumes "isTelegramEnabled cfg"
    and "TELEGRAM_WEBHOOK_SECRET cfg = []
         \<or> (case secret_token_header req of None \<Rightarrow> [] | Some s \<Rightarrow> s) = TELEGRAM_WEBHOOK_SECRET cfg"
    and "body req = Some u" and "update_id u = JS_number uid"
    and "uid \<notin> set (telegram_updates w)"
    and "webhook_route ledger_lookup cfg now req w = (r1, w1)"
    and "webhook_route ledger_lookup cfg now2 req w1 = (r2, w2)"
  shows "r1 = Json_response 200 Ok_body \<and> r2 = Json_response 200 Ok_duplicate_body \<and> w2 = w1
         \<and> count_list (telegram_updates w2) uid = 1
         \<and> length (grievances w2) \<le> length (grievances w) + 1"
proof -
  from lookup_unseen [OF assms(1-5), of now] assms(6)
  have w1: "w1 = dispatch_update cfg now u (w\<lparr>telegram_updates := telegram_updates w @ [uid]\<rparr>)"
    and r1: "r1 = Json_response 200 Ok_body"
    by simp_all
  from dispatch_frame [of cfg now u "w\<lparr>telegram_updates := telegram_updates w @ [uid]\<rparr>"]
  have led: "telegram_updates w1 = telegram_updates w @ [uid]"
    and gr: "length (grievances w1) \<le> length (grievances w) + 1"
    by (simp_all add: w1)
  then have "uid \<in> set (telegram_updates w1)" by simp
  from lookup_seen [OF assms(1-4) this, of now2] assms(7)
  have "r2 = Json_response 200 Ok_duplicate_body" "w2 = w1" by simp_all
  moreover have "count_list (telegram_updates w1) uid = 1"
    using assms(5) by (simp add: led count_list_0_iff)
  ultimately show ?thesis using r1 gr by simp
qed

end
